theory Spec2Isabelle
  imports Main "HOL-Library.AList"
begin

section \<open>The Wandbox client (wander/wander.py)\<close>

text \<open>
  The client is a class \<open>Wandbox\<close> with one attribute per object, \<open>self.session\<close>,
  and one class attribute shared by all objects, the list \<open>Wandbox.active\<close>. Objects
  of the class and objects of aiohttp's \<open>ClientSession\<close> are referred to by identity, so
  both are numbered in the order of their creation and the heap is written out: which
  session each client object holds, and which sessions are closed.
\<close>

subsection \<open>Python values and errors\<close>

text \<open>
  Floats are kept abstract: no method of the client looks inside a number.
\<close>

typedecl pyfloat

text \<open>
  The values that \<open>json\<close> decodes to and serialises from. A \<open>PDict\<close> lists the
  items of a dict in insertion order; as in a dict, a key occurs once.
\<close>

datatype pyval =
    PNone
  | PBool bool
  | PInt int
  | PFloat pyfloat
  | PStr string
  | PList "pyval list"
  | PDict "(string \<times> pyval) list"

datatype error =
    HTTPStatusError nat string
  | ConnectionError
  | DecodeError
  | TypeError
  | KeyError
  | ValueError

subsection \<open>Connection lifecycle\<close>

type_synonym inst = nat
type_synonym sess = nat

record world =
  active :: "inst list"
  session :: "inst \<Rightarrow> sess option"
  closed :: "sess \<Rightarrow> bool"
  sessions :: nat
  instances :: nat

text \<open>
  The state of a fresh interpreter, right after the module is imported: no client
  object, no session, \<open>Wandbox.active = []\<close>.
\<close>

definition world0 :: world where
  "world0 = \<lparr>active = [], session = (\<lambda>_. None), closed = (\<lambda>_. False),
             sessions = 0, instances = 0\<rparr>"

text \<open>
  Modelled from the spec: \<open>aiohttp.ClientSession()\<close> is library code, not under src/.
  The call creates a new transport handle, distinct from every earlier one, and the
  new handle is open.
\<close>

definition ClientSession :: "world \<Rightarrow> sess \<times> world" where
  "ClientSession w =
     (sessions w, w\<lparr>closed := (closed w)(sessions w := False), sessions := Suc (sessions w)\<rparr>)"

text \<open>
  Modelled from the spec: \<open>ClientSession.close()\<close> is library code, not under src/.
  It shuts the transport handle down, after which the handle reports \<open>closed\<close>.
\<close>

definition session_close :: "sess \<Rightarrow> world \<Rightarrow> world" where
  "session_close s w = w\<lparr>closed := (closed w)(s := True)\<rparr>"

text \<open>\<open>Wandbox.connect\<close>, lines 21 to 34.\<close>

definition connect :: "inst \<Rightarrow> world \<Rightarrow> world" where
  "connect self w =
     (case session w self of
        None \<Rightarrow>
          (let (s, w1) = ClientSession w;
               w2 = w1\<lparr>session := (session w1)(self := Some s)\<rparr>
           in w2\<lparr>active := active w2 @ [self]\<rparr>)
      | Some s0 \<Rightarrow>
          (let w1 = (if closed w s0
                     then (let (s, w') = ClientSession w
                           in w'\<lparr>session := (session w')(self := Some s)\<rparr>)
                     else w)
           in if self \<notin> set (active w1)
              then w1\<lparr>active := active w1 @ [self]\<rparr>
              else w1))"

text \<open>
  \<open>Wandbox.close\<close>, lines 36 to 44. \<open>list.remove\<close> deletes the first occurrence and
  raises \<open>ValueError\<close> when there is none; the session is closed by then.
\<close>

definition close :: "inst \<Rightarrow> world \<Rightarrow> error option \<times> world" where
  "close self w =
     (case session w self of
        None \<Rightarrow> (None, w)
      | Some s \<Rightarrow>
          if \<not> closed w s
          then (let w1 = session_close s w
                in if self \<in> set (active w1)
                   then (None, w1\<lparr>active := remove1 self (active w1)\<rparr>)
                   else (Some ValueError, w1))
          else (None, w))"

text \<open>
  \<open>Wandbox()\<close>: a new object is allocated and \<open>__init__\<close> (lines 13 to 19) runs on it:
  \<open>self.session = None\<close>, then \<open>self.connect()\<close>.
\<close>

definition init :: "world \<Rightarrow> inst \<times> world" where
  "init w =
     (let self = instances w;
          w1 = w\<lparr>session := (session w)(self := None), instances := Suc self\<rparr>
      in (self, connect self w1))"

text \<open>
  A caller's sequence of lifecycle calls. \<open>Connect\<close> and \<open>Close\<close> name the object
  they are called on; a method can only be called on an object that has been
  constructed, so a call naming any other number is not a call and changes nothing.
  An exception from \<open>close\<close> is the caller's to handle: the world it leaves is the one
  the next call sees.
\<close>

datatype call = New | Connect inst | Close inst

fun step :: "call \<Rightarrow> world \<Rightarrow> world" where
  "step New w = snd (init w)"
| "step (Connect i) w = (if i < instances w then connect i w else w)"
| "step (Close i) w = (if i < instances w then snd (close i w) else w)"

fun run :: "call list \<Rightarrow> world \<Rightarrow> world" where
  "run [] w = w"
| "run (c # cs) w = run cs (step c w)"

text \<open>
  What every lifecycle call preserves: the registry has no duplicates, and whoever is
  in it is a constructed object that holds a session.
\<close>

definition registry_ok :: "world \<Rightarrow> bool" where
  "registry_ok w \<longleftrightarrow>
     distinct (active w)
     \<and> list_all (\<lambda>i. i < instances w \<and> session w i \<noteq> None) (active w)"

subsection \<open>Requests and responses\<close>

datatype verb = GET | POST

type_synonym kwdict = "(string \<times> pyval) list"

text \<open>
  What the client hands to the transport: \<open>self.session.get(url=url, ssl=False, **kwargs)\<close>
  or the same call of \<open>post\<close>. \<open>kwargs\<close> are the remaining keyword arguments, among them
  \<open>headers\<close>, \<open>data\<close> and \<open>params\<close> when the method sets them.
\<close>

record request =
  verb :: verb
  url :: string
  ssl :: bool
  kwargs :: kwdict

text \<open>What the server answers, and the response object aiohttp makes of it.\<close>

record reply =
  status :: nat
  content_type :: string
  charset :: "string option"
  body :: string

record response = reply +
  request_info :: request

text \<open>
  The libraries the client calls, none of them under src/, taken as parameters:
  the network behind the session (an answer, or the error the transport raises);
  \<open>bytes.decode\<close> under an optional encoding; \<open>json.JSONDecoder().decode\<close>
  (\<open>None\<close> when it raises); \<open>json.dumps\<close>.
\<close>

record lib =
  send :: "request \<Rightarrow> error + reply"
  bytes_decode :: "string option \<Rightarrow> string \<Rightarrow> string option"
  json_decode :: "string \<Rightarrow> pyval option"
  json_dumps :: "pyval \<Rightarrow> string"

text \<open>
  The requests a method handed to the transport, in order, and what the method
  returned or raised.
\<close>

type_synonym 'a outcome = "request list \<times> (error + 'a)"

text \<open>
  Modelled from the spec: the session's \<open>get\<close> and \<open>post\<close> are library code, not under
  src/. They perform the network call and give the response, which remembers the
  request it answers.
\<close>

definition session_request :: "lib \<Rightarrow> request \<Rightarrow> error + response" where
  "session_request L req =
     (case send L req of
        Inl e \<Rightarrow> Inl e
      | Inr rep \<Rightarrow> Inr (reply.extend rep (response.fields req)))"

text \<open>
  Modelled from the spec: \<open>ClientResponse.raise_for_status\<close> is library code, not under
  src/. On a non-2xx HTTP status it fails with an error carrying the status code and
  the URL.
\<close>

definition raise_for_status :: "response \<Rightarrow> error + unit" where
  "raise_for_status response =
     (if 200 \<le> status response \<and> status response < 300 then Inr ()
      else Inl (HTTPStatusError (status response) (url (request_info response))))"

text \<open>
  Modelled from the spec: \<open>ClientResponse.json\<close> is library code, not under src/. The
  bytes of the body are decoded under the given character encoding and the text is
  given to \<open>loads\<close>; either step failing is a \<open>DecodeError\<close>.
\<close>

definition response_json ::
  "lib \<Rightarrow> response \<Rightarrow> string \<Rightarrow> (string \<Rightarrow> pyval option) \<Rightarrow> string option \<Rightarrow> error + pyval" where
  "response_json L response ctype loads encoding =
     (case bytes_decode L encoding (body response) of
        None \<Rightarrow> Inl DecodeError
      | Some text \<Rightarrow> (case loads text of None \<Rightarrow> Inl DecodeError | Some v \<Rightarrow> Inr v))"

text \<open>
  Modelled from the spec: the \<open>ndjson\<close> package is library code, not under src/. Its
  decoder reads the text as a sequence of JSON values, one per line, up to the end of
  the text, and gives the ordered sequence of the decoded values. Lines end at a
  line feed; a line feed at the very end opens no further line.
\<close>

fun splitlines :: "string \<Rightarrow> string list" where
  "splitlines [] = []"
| "splitlines (c # cs) =
     (if c = CHR 0x0A then [] # splitlines cs
      else (case splitlines cs of [] \<Rightarrow> [[c]] | l # ls \<Rightarrow> (c # l) # ls))"

fun decode_lines :: "(string \<Rightarrow> pyval option) \<Rightarrow> string list \<Rightarrow> pyval list option" where
  "decode_lines f [] = Some []"
| "decode_lines f (l # ls) =
     (case f l of
        None \<Rightarrow> None
      | Some v \<Rightarrow> (case decode_lines f ls of None \<Rightarrow> None | Some vs \<Rightarrow> Some (v # vs)))"

definition ndjson_decode :: "(string \<Rightarrow> pyval option) \<Rightarrow> string \<Rightarrow> pyval option" where
  "ndjson_decode f s = map_option PList (decode_lines f (splitlines s))"

subsection \<open>The request dispatcher\<close>

text \<open>The two decoder classes \<open>_parse_response\<close> chooses between, and their \<open>decode\<close>.\<close>

datatype decoder = NdjsonDecoder | JSONDecoder

fun decoder_decode :: "lib \<Rightarrow> decoder \<Rightarrow> string \<Rightarrow> pyval option" where
  "decoder_decode L NdjsonDecoder = ndjson_decode (json_decode L)"
| "decoder_decode L JSONDecoder = json_decode L"

text \<open>
  \<open>Wandbox._parse_response\<close>, lines 46 to 57 (an identifier cannot start with an
  underscore, so the private methods are prefixed \<open>p\<close>).
\<close>

definition p_parse_response :: "lib \<Rightarrow> response \<Rightarrow> error + pyval" where
  "p_parse_response L response =
     (let decoder = (if content_type response = ''application/x-ndjson''
                     then NdjsonDecoder else JSONDecoder);
          charset' = charset response
      in response_json L response (content_type response) (decoder_decode L decoder) charset')"

text \<open>
  A Python call \<open>f(k1=v1, ..., **kwargs)\<close> raises \<open>TypeError\<close> when \<open>kwargs\<close> holds one of
  the keywords written out in the call, or one that a positional parameter of \<open>f\<close> has
  taken.
\<close>

definition keyword_clash :: "string list \<Rightarrow> kwdict \<Rightarrow> bool" where
  "keyword_clash names kwargs' \<longleftrightarrow> filter (\<lambda>k. k \<in> set (map fst kwargs')) names \<noteq> []"

text \<open>
  \<open>Wandbox._get\<close>, lines 59 to 71, and \<open>Wandbox._post\<close>, lines 73 to 85. No caller in the
  class passes positional arguments besides the URL, so \<open>*args\<close> is empty. Leaving
  the \<open>async with\<close> block releases the response and changes no result.
\<close>

definition p_get :: "lib \<Rightarrow> string \<Rightarrow> kwdict \<Rightarrow> pyval outcome" where
  "p_get L url' kwargs' =
     (if keyword_clash [''url'', ''ssl''] kwargs' then ([], Inl TypeError)
      else
        (let req = \<lparr>verb = GET, url = url', ssl = False, kwargs = kwargs'\<rparr>
         in ([req],
             case session_request L req of
               Inl e \<Rightarrow> Inl e
             | Inr response \<Rightarrow>
                 (case raise_for_status response of
                    Inl e \<Rightarrow> Inl e
                  | Inr _ \<Rightarrow> p_parse_response L response))))"

definition p_post :: "lib \<Rightarrow> string \<Rightarrow> kwdict \<Rightarrow> pyval outcome" where
  "p_post L url' kwargs' =
     (if keyword_clash [''url'', ''ssl''] kwargs' then ([], Inl TypeError)
      else
        (let req = \<lparr>verb = POST, url = url', ssl = False, kwargs = kwargs'\<rparr>
         in ([req],
             case session_request L req of
               Inl e \<Rightarrow> Inl e
             | Inr response \<Rightarrow>
                 (case raise_for_status response of
                    Inl e \<Rightarrow> Inl e
                  | Inr _ \<Rightarrow> p_parse_response L response))))"

subsection \<open>Endpoint methods\<close>

text \<open>The class attribute \<open>url\<close> and its \<open>format\<close>, line 10.\<close>

definition url_format :: "string \<Rightarrow> string" where
  "url_format endpoint = ''https://wandbox.org/api/'' @ endpoint"

text \<open>
  Each method below takes the caller's \<open>**kwargs\<close> last. Where a method passes a
  keyword itself and spreads \<open>**kwargs\<close> beside it, a repeated keyword is Python's
  \<open>TypeError\<close>; where it calls \<open>kwargs.update\<close> first, its own value replaces the
  caller's.
\<close>

text \<open>\<open>Wandbox.compilers\<close>, lines 87 to 167.\<close>

definition compilers :: "lib \<Rightarrow> kwdict \<Rightarrow> pyval outcome" where
  "compilers L kwargs' =
     (let headers = PDict [(''Content-type'', PStr ''application/json''),
                           (''Accept'', PStr ''text/plain'')]
      in if keyword_clash [''url'', ''headers''] kwargs' then ([], Inl TypeError)
         else p_get L (url_format ''list.json'') ((''headers'', headers) # kwargs'))"

text \<open>\<open>Wandbox.get_permlink\<close>, lines 169 to 177.\<close>

definition get_permlink :: "lib \<Rightarrow> string \<Rightarrow> kwdict \<Rightarrow> pyval outcome" where
  "get_permlink L link kwargs' =
     (if keyword_clash [''url''] kwargs' then ([], Inl TypeError)
      else p_get L (url_format (''permlink/'' @ link)) kwargs')"

text \<open>
  \<open>Wandbox.get_template\<close>, lines 179 to 193. Subscripting a dict that has no key
  \<open>code\<close> raises \<open>KeyError\<close>.
\<close>

definition get_template :: "lib \<Rightarrow> string \<Rightarrow> kwdict \<Rightarrow> pyval outcome" where
  "get_template L name kwargs' =
     (if keyword_clash [''url''] kwargs' then ([], Inl TypeError)
      else
        (case p_get L (url_format (''template/'' @ name)) kwargs' of
           (sent, Inl e) \<Rightarrow> (sent, Inl e)
         | (sent, Inr code) \<Rightarrow>
             (sent,
              case code of
                PDict d \<Rightarrow> (case map_of d ''code'' of None \<Rightarrow> Inl KeyError | Some v \<Rightarrow> Inr v)
              | _ \<Rightarrow> Inr code)))"

text \<open>\<open>Wandbox.get_user\<close>, lines 195 to 208.\<close>

definition get_user :: "lib \<Rightarrow> pyval \<Rightarrow> kwdict \<Rightarrow> pyval outcome" where
  "get_user L session' kwargs' =
     (if keyword_clash [''url'', ''data''] kwargs' then ([], Inl TypeError)
      else p_get L (url_format ''url.json'')
             ((''data'', PStr (json_dumps L (PDict [(''session'', session')]))) # kwargs'))"

text \<open>\<open>Wandbox.compile\<close>, lines 210 to 250.\<close>

definition compile ::
  "lib \<Rightarrow> pyval \<Rightarrow> pyval \<Rightarrow> pyval \<Rightarrow> pyval \<Rightarrow> pyval \<Rightarrow> pyval \<Rightarrow> pyval \<Rightarrow> pyval \<Rightarrow> kwdict
     \<Rightarrow> pyval outcome" where
  "compile L code compiler codes compiler_option_raw options runtime_option_raw save stdin kwargs' =
     (let params = PDict [(''code'', code),
                          (''codes'', codes),
                          (''compiler'', compiler),
                          (''compiler-option-raw'', compiler_option_raw),
                          (''options'', options),
                          (''runtime-option-raw'', runtime_option_raw),
                          (''save'', save),
                          (''stdin'', stdin)];
          headers = PDict [(''Content-type'', PStr ''application/json''),
                           (''Accept'', PStr ''text/plain'')];
          kwargs2 = AList.update ''headers'' headers
                      (AList.update ''data'' (PStr (json_dumps L params)) kwargs')
      in if keyword_clash [''url''] kwargs2 then ([], Inl TypeError)
         else p_post L (url_format ''compile.json'') kwargs2)"

text \<open>\<open>Wandbox.compile_nd\<close>, lines 252 to 289.\<close>

definition compile_nd ::
  "lib \<Rightarrow> pyval \<Rightarrow> pyval \<Rightarrow> pyval \<Rightarrow> pyval \<Rightarrow> pyval \<Rightarrow> pyval \<Rightarrow> pyval \<Rightarrow> kwdict
     \<Rightarrow> pyval outcome" where
  "compile_nd L code compiler codes compiler_option_raw options runtime_option_raw stdin kwargs' =
     (let params = PDict [(''code'', code),
                          (''codes'', codes),
                          (''compiler'', compiler),
                          (''compiler-option-raw'', compiler_option_raw),
                          (''options'', options),
                          (''runtime-option-raw'', runtime_option_raw),
                          (''stdin'', stdin)];
          headers = PDict [(''Content-type'', PStr ''application/x-ndjson''),
                           (''Accept'', PStr ''text/plain'')];
          kwargs2 = AList.update ''headers'' headers
                      (AList.update ''data'' (PStr (json_dumps L params)) kwargs')
      in if keyword_clash [''url''] kwargs2 then ([], Inl TypeError)
         else p_post L (url_format ''compile.ndjson'') kwargs2)"

text \<open>\<open>Wandbox.post_permlink\<close>, lines 291 to 329.\<close>

definition post_permlink ::
  "lib \<Rightarrow> pyval \<Rightarrow> pyval \<Rightarrow> pyval \<Rightarrow> pyval \<Rightarrow> pyval \<Rightarrow> pyval \<Rightarrow> pyval \<Rightarrow> pyval \<Rightarrow> kwdict
     \<Rightarrow> pyval outcome" where
  "post_permlink L code compiler codes compiler_option_raw options results runtime_option_raw
       stdin kwargs' =
     (let params = PDict [(''code'', code),
                          (''codes'', codes),
                          (''compiler'', compiler),
                          (''compiler-option-raw'', compiler_option_raw),
                          (''options'', options),
                          (''results'', results),
                          (''runtime-option-raw'', runtime_option_raw),
                          (''stdin'', stdin)];
          kwargs2 = AList.update ''params'' (PStr (json_dumps L params)) kwargs'
      in if keyword_clash [''url''] kwargs2 then ([], Inl TypeError)
         else p_post L (url_format ''permlink'') kwargs2)"

text \<open>A call of any one endpoint method, with its arguments in the method's order.\<close>

datatype endpoint_call =
    Compilers kwdict
  | GetPermlink string kwdict
  | GetTemplate string kwdict
  | GetUser pyval kwdict
  | Compile pyval pyval pyval pyval pyval pyval pyval pyval kwdict
  | CompileNd pyval pyval pyval pyval pyval pyval pyval kwdict
  | PostPermlink pyval pyval pyval pyval pyval pyval pyval pyval kwdict

fun invoke :: "lib \<Rightarrow> endpoint_call \<Rightarrow> pyval outcome" where
  "invoke L (Compilers kw) = compilers L kw"
| "invoke L (GetPermlink link kw) = get_permlink L link kw"
| "invoke L (GetTemplate name kw) = get_template L name kw"
| "invoke L (GetUser s kw) = get_user L s kw"
| "invoke L (Compile a b c d e f g h kw) = compile L a b c d e f g h kw"
| "invoke L (CompileNd a b c d e f g kw) = compile_nd L a b c d e f g kw"
| "invoke L (PostPermlink a b c d e f g h kw) = post_permlink L a b c d e f g h kw"

subsection \<open>A stand-in for the libraries\<close>

text \<open>
  For running the client on concrete inputs: a server that answers every request with
  one fixed status, content type and body; bytes that decode to themselves; a decoder
  that knows four JSON documents; a serialiser that always writes the empty object.
\<close>

definition stub_json_decode :: "string \<Rightarrow> pyval option" where
  \<open>stub_json_decode s =
     (if s = ''true'' then Some (PBool True)
      else if s = ''false'' then Some (PBool False)
      else if s = ''"hello"'' then Some (PStr ''hello'')
      else if s = ''{"code": "hello"}'' then Some (PDict [(''code'', PStr ''hello'')])
      else None)\<close>

definition stub_lib :: "nat \<Rightarrow> string \<Rightarrow> string \<Rightarrow> lib" where
  "stub_lib st ct b =
     \<lparr>send = (\<lambda>req. Inr \<lparr>status = st, content_type = ct, charset = None, body = b\<rparr>),
      bytes_decode = (\<lambda>encoding bs. Some bs),
      json_decode = stub_json_decode,
      json_dumps = (\<lambda>v. ''{}'')\<rparr>"

section \<open>Properties of the lifecycle\<close>

lemma connect_session_open:
  "\<exists>s. session (connect self w) self = Some s \<and> \<not> closed (connect self w) s"
  by (auto simp: connect_def ClientSession_def Let_def split: option.splits)

lemma connect_registered: "self \<in> set (active (connect self w))"
  by (auto simp: connect_def ClientSession_def Let_def split: option.splits)

lemma connect_noop:
  assumes "session w self = Some s" and "\<not> closed w s" and "self \<in> set (active w)"
  shows "connect self w = w"
  using assms by (simp add: connect_def)

text \<open>
  C3: calling \<open>connect()\<close> twice in a row is the same as calling it once. The second
  call leaves the whole world as the first call left it: no further session is created
  (the count of sessions is that after the first call, and the object holds the same
  session, which is open), and the registry is the same list, so the object occurs in
  it as often as after the first call.
\<close>

theorem connect_idempotent:
  "connect self (connect self w) = connect self w
   \<and> sessions (connect self (connect self w)) = sessions (connect self w)
   \<and> session (connect self (connect self w)) self = session (connect self w) self
   \<and> (\<exists>s. session (connect self (connect self w)) self = Some s
          \<and> \<not> closed (connect self (connect self w)) s)
   \<and> count_list (active (connect self (connect self w))) self
       = count_list (active (connect self w)) self"
proof -
  obtain s where opened: "session (connect self w) self = Some s" "\<not> closed (connect self w) s"
    using connect_session_open by blast
  then have "connect self (connect self w) = connect self w"
    using connect_registered by (rule connect_noop)
  with opened show ?thesis by simp
qed

text \<open>
  C4: \<open>close()\<close> on an object whose session was never opened (\<open>self.session\<close> is
  \<open>None\<close>) or is already closed returns without an error and leaves the world, that
  is the object's session and the registry, as it was.
\<close>

theorem close_noop:
  assumes "session w self = None \<or> (\<exists>s. session w self = Some s \<and> closed w s)"
  shows "close self w = (None, w)"
  using assms by (auto simp: close_def)

theorem close_noop_witness:
  "(session (snd (close 0 (snd (init world0)))) 0 = None
      \<or> (\<exists>s. session (snd (close 0 (snd (init world0)))) 0 = Some s
               \<and> closed (snd (close 0 (snd (init world0)))) s))
   \<and> close 0 (snd (close 0 (snd (init world0)))) = (None, snd (close 0 (snd (init world0))))
   \<and> session world0 0 = None
   \<and> close 0 world0 = (None, world0)"
proof -
  have closed_before:
    "session (snd (close 0 (snd (init world0)))) 0 = None
       \<or> (\<exists>s. session (snd (close 0 (snd (init world0)))) 0 = Some s
                \<and> closed (snd (close 0 (snd (init world0)))) s)"
    by (simp add: close_def init_def connect_def ClientSession_def session_close_def
        world0_def Let_def)
  have never_opened: "session world0 0 = None \<or> (\<exists>s. session world0 0 = Some s \<and> closed world0 s)"
    by (simp add: world0_def)
  show ?thesis
    using closed_before close_noop [OF closed_before] close_noop [OF never_opened]
    by (simp add: world0_def)
qed

text \<open>
  C7, as the claim states it, fails: the constructor does create the transport handle.
  Already the first object constructed in a fresh interpreter holds session number 0,
  and one session exists.
\<close>

theorem init_lazy_counterexample:
  "session (snd (init world0)) (fst (init world0)) = Some 0
   \<and> sessions (snd (init world0)) = 1
   \<and> sessions world0 = 0"
  by (simp add: init_def connect_def ClientSession_def world0_def Let_def)

text \<open>
  C7, amended: constructing a client object creates its transport handle at once. The
  constructor calls \<open>connect()\<close>, so it returns an object that holds a session created
  by this very call (exactly one session is created), the session is open, and the
  object is in the registry.
\<close>

theorem init_creates_session:
  "session (snd (init w)) (fst (init w)) = Some (sessions w)
   \<and> sessions (snd (init w)) = Suc (sessions w)
   \<and> \<not> closed (snd (init w)) (sessions w)
   \<and> fst (init w) \<in> set (active (snd (init w)))"
  by (simp add: init_def connect_def ClientSession_def Let_def)

subsection \<open>The registry invariant\<close>

lemma registry_ok_world0: "registry_ok world0"
  by (simp add: registry_ok_def world0_def)

lemma registry_ok_connect:
  assumes "registry_ok w" and "self < instances w"
  shows "registry_ok (connect self w)"
  using assms
  by (auto simp: registry_ok_def connect_def ClientSession_def Let_def list_all_iff
      split: option.splits)

lemma registry_ok_close:
  assumes "registry_ok w"
  shows "registry_ok (snd (close self w))"
  using assms
  by (auto simp: registry_ok_def close_def session_close_def Let_def list_all_iff
      split: option.splits)

lemma registry_ok_init:
  assumes "registry_ok w"
  shows "registry_ok (snd (init w))"
proof -
  let ?w1 = "w\<lparr>session := (session w)(instances w := None), instances := Suc (instances w)\<rparr>"
  have fresh: "instances w \<notin> set (active w)"
    using assms by (auto simp: registry_ok_def list_all_iff)
  have "registry_ok ?w1"
    using assms fresh by (auto simp: registry_ok_def list_all_iff)
  then have "registry_ok (connect (instances w) ?w1)"
    by (rule registry_ok_connect) simp
  then show ?thesis by (simp add: init_def Let_def)
qed

lemma distinct_count_le_1: "distinct xs \<Longrightarrow> count_list xs x \<le> 1"
  by (induction xs) auto

lemma registry_ok_step: "registry_ok w \<Longrightarrow> registry_ok (step c w)"
  by (cases c) (simp_all add: registry_ok_init registry_ok_connect registry_ok_close)

lemma registry_ok_run: "registry_ok w \<Longrightarrow> registry_ok (run cs w)"
  by (induction cs arbitrary: w) (simp_all add: registry_ok_step)

text \<open>
  C10: after any sequence of constructor, \<open>connect()\<close> and \<open>close()\<close> calls, started
  in a fresh interpreter, every object occurs at most once in \<open>Wandbox.active\<close>, and
  an object whose \<open>self.session\<close> is still \<open>None\<close> (it never created a transport
  handle) does not occur in it.
\<close>

theorem registry_invariant:
  "count_list (active (run cs world0)) i \<le> 1
   \<and> (session (run cs world0) i = None \<longrightarrow> i \<notin> set (active (run cs world0)))"
proof -
  have ok: "registry_ok (run cs world0)"
    by (rule registry_ok_run) (rule registry_ok_world0)
  then have "distinct (active (run cs world0))"
    by (simp add: registry_ok_def)
  then have "count_list (active (run cs world0)) i \<le> 1"
    by (rule distinct_count_le_1)
  moreover have "session (run cs world0) i = None \<longrightarrow> i \<notin> set (active (run cs world0))"
    using ok by (auto simp: registry_ok_def list_all_iff)
  ultimately show ?thesis by simp
qed

theorem registry_invariant_witness:
  "session (run [New, New, Close 0, Connect 0, Connect 0, Close 1] world0) 2 = None
   \<and> 2 \<notin> set (active (run [New, New, Close 0, Connect 0, Connect 0, Close 1] world0))
   \<and> count_list (active (run [New, New, Close 0, Connect 0, Connect 0, Close 1] world0)) 0 \<le> 1"
proof -
  have never: "session (run [New, New, Close 0, Connect 0, Connect 0, Close 1] world0) 2 = None"
    by (simp add: init_def connect_def close_def ClientSession_def session_close_def
        world0_def Let_def)
  show ?thesis
    using never
      registry_invariant [of "[New, New, Close 0, Connect 0, Connect 0, Close 1]" 2]
      registry_invariant [of "[New, New, Close 0, Connect 0, Connect 0, Close 1]" 0]
    by blast
qed

section \<open>Properties of the dispatcher\<close>

lemma decode_lines_iff: "decode_lines f ls = Some vs \<longleftrightarrow> map f ls = map Some vs"
proof (induction ls arbitrary: vs)
  case Nil
  then show ?case by auto
next
  case (Cons l ls)
  show ?case
  proof (cases "f l")
    case None
    then show ?thesis by (cases vs) auto
  next
    case (Some v)
    show ?thesis
    proof (cases "decode_lines f ls")
      case None
      with Some Cons.IH show ?thesis by (cases vs) auto
    next
      case inner: (Some ws)
      with Some Cons.IH [of ws] Cons.IH show ?thesis by (cases vs) auto
    qed
  qed
qed

lemma parse_ndjson:
  assumes "content_type r = ''application/x-ndjson''"
  shows "p_parse_response L r = Inr v \<longleftrightarrow>
         (\<exists>text vs. bytes_decode L (charset r) (body r) = Some text
            \<and> map (json_decode L) (splitlines text) = map Some vs
            \<and> v = PList vs)"
  using assms
  by (auto simp: p_parse_response_def response_json_def ndjson_decode_def
      decode_lines_iff [symmetric] split: option.splits)

lemma parse_json:
  assumes "content_type r \<noteq> ''application/x-ndjson''"
  shows "p_parse_response L r = Inr v \<longleftrightarrow>
         (\<exists>text. bytes_decode L (charset r) (body r) = Some text
            \<and> json_decode L text = Some v)"
  using assms
  by (auto simp: p_parse_response_def response_json_def split: option.splits)

text \<open>
  C1: the decoder is chosen by the declared content type alone. A response that
  declares \<open>application/x-ndjson\<close> decodes to a value exactly when every line of its
  text decodes, and the value is then the list of the lines' values, one per line, in
  the order of the lines. A response that declares any other content type decodes to
  a value exactly when its whole text is one JSON document, and the value is that
  document's. Nothing but the content type decides which of the two applies: the body
  may be any text.
\<close>

theorem parse_response_by_content_type:
  "(content_type r = ''application/x-ndjson'' \<longrightarrow>
      (p_parse_response L r = Inr v \<longleftrightarrow>
         (\<exists>text vs. bytes_decode L (charset r) (body r) = Some text
            \<and> map (json_decode L) (splitlines text) = map Some vs
            \<and> v = PList vs)))
   \<and> (content_type r \<noteq> ''application/x-ndjson'' \<longrightarrow>
      (p_parse_response L r = Inr v \<longleftrightarrow>
         (\<exists>text. bytes_decode L (charset r) (body r) = Some text
            \<and> json_decode L text = Some v)))"
  using parse_ndjson [of r L v] parse_json [of r L v] by blast

theorem parse_response_by_content_type_witness:
  "p_parse_response (stub_lib 200 [] [])
     \<lparr>status = 200, content_type = ''application/x-ndjson'', charset = None,
      body = ''true'' @ [CHR 0x0A] @ ''false'',
      request_info = \<lparr>verb = POST, url = [], ssl = False, kwargs = []\<rparr>\<rparr>
     = Inr (PList [PBool True, PBool False])
   \<and> p_parse_response (stub_lib 200 [] [])
     \<lparr>status = 200, content_type = ''application/json'', charset = None,
      body = ''true'',
      request_info = \<lparr>verb = GET, url = [], ssl = False, kwargs = []\<rparr>\<rparr>
     = Inr (PBool True)"
proof -
  let ?L = "stub_lib 200 [] []"
  let ?r = "\<lparr>status = 200, content_type = ''application/x-ndjson'', charset = None,
      body = ''true'' @ [CHR 0x0A] @ ''false'',
      request_info = \<lparr>verb = POST, url = [], ssl = False, kwargs = []\<rparr>\<rparr>"
  let ?r' = "\<lparr>status = 200, content_type = ''application/json'', charset = None,
      body = ''true'',
      request_info = \<lparr>verb = GET, url = [], ssl = False, kwargs = []\<rparr>\<rparr>"
  have ct: "content_type ?r = ''application/x-ndjson''" by simp
  have lines: "\<exists>text vs. bytes_decode ?L (charset ?r) (body ?r) = Some text
            \<and> map (json_decode ?L) (splitlines text) = map Some vs
            \<and> PList [PBool True, PBool False] = PList vs"
    by (simp add: stub_lib_def stub_json_decode_def)
  have ct': "content_type ?r' \<noteq> ''application/x-ndjson''" by simp
  have one: "\<exists>text. bytes_decode ?L (charset ?r') (body ?r') = Some text
            \<and> json_decode ?L text = Some (PBool True)"
    by (simp add: stub_lib_def stub_json_decode_def)
  show ?thesis
    using ct lines ct' one
      parse_response_by_content_type [of ?r ?L "PList [PBool True, PBool False]"]
      parse_response_by_content_type [of ?r' ?L "PBool True"]
    by blast
qed

lemma p_get_fst:
  "fst (p_get L u kw) =
     (if keyword_clash [''url'', ''ssl''] kw then []
      else [\<lparr>verb = GET, url = u, ssl = False, kwargs = kw\<rparr>])"
  by (simp add: p_get_def Let_def)

lemma p_post_fst:
  "fst (p_post L u kw) =
     (if keyword_clash [''url'', ''ssl''] kw then []
      else [\<lparr>verb = POST, url = u, ssl = False, kwargs = kw\<rparr>])"
  by (simp add: p_post_def Let_def)

lemma p_get_non_2xx:
  assumes "fst (p_get L u kw) = [req]" and "send L req = Inr rep"
    and "\<not> (200 \<le> status rep \<and> status rep < 300)"
  shows "p_get L u kw = ([req], Inl (HTTPStatusError (status rep) (url req)))"
  using assms
  by (auto simp: p_get_def Let_def session_request_def raise_for_status_def reply.defs
      response.defs split: if_splits)

lemma p_post_non_2xx:
  assumes "fst (p_post L u kw) = [req]" and "send L req = Inr rep"
    and "\<not> (200 \<le> status rep \<and> status rep < 300)"
  shows "p_post L u kw = ([req], Inl (HTTPStatusError (status rep) (url req)))"
  using assms
  by (auto simp: p_post_def Let_def session_request_def raise_for_status_def reply.defs
      response.defs split: if_splits)

lemma get_template_non_2xx:
  assumes "fst (get_template L name kw) = [req]" and "send L req = Inr rep"
    and "\<not> (200 \<le> status rep \<and> status rep < 300)"
  shows "get_template L name kw = ([req], Inl (HTTPStatusError (status rep) (url req)))"
proof -
  have nc: "\<not> keyword_clash [''url''] kw"
    using assms(1) by (auto simp: get_template_def split: if_splits)
  obtain sent res where pg: "p_get L (url_format (''template/'' @ name)) kw = (sent, res)"
    by (cases "p_get L (url_format (''template/'' @ name)) kw")
  with nc assms(1) have "sent = [req]"
    by (auto simp: get_template_def split: sum.splits)
  with pg have "fst (p_get L (url_format (''template/'' @ name)) kw) = [req]" by simp
  from p_get_non_2xx [OF this assms(2,3)] nc show ?thesis
    by (simp add: get_template_def)
qed

lemma invoke_non_2xx:
  assumes "fst (invoke L c) = [req]" and "send L req = Inr rep"
    and "\<not> (200 \<le> status rep \<and> status rep < 300)"
  shows "invoke L c = ([req], Inl (HTTPStatusError (status rep) (url req)))"
proof (cases c)
  case (Compilers kw)
  with assms show ?thesis
    by (auto simp: compilers_def Let_def p_get_non_2xx split: if_splits)
next
  case (GetPermlink link kw)
  with assms show ?thesis
    by (auto simp: get_permlink_def p_get_non_2xx split: if_splits)
next
  case (GetTemplate name kw)
  with assms show ?thesis by (simp add: get_template_non_2xx)
next
  case (GetUser s kw)
  with assms show ?thesis
    by (auto simp: get_user_def p_get_non_2xx split: if_splits)
next
  case (Compile a b c d e f g h kw)
  with assms show ?thesis
    by (auto simp: compile_def Let_def p_post_non_2xx split: if_splits)
next
  case (CompileNd a b c d e f g kw)
  with assms show ?thesis
    by (auto simp: compile_nd_def Let_def p_post_non_2xx split: if_splits)
next
  case (PostPermlink a b c d e f g h kw)
  with assms show ?thesis
    by (auto simp: post_permlink_def Let_def p_post_non_2xx split: if_splits)
qed

lemma get_template_fst:
  "fst (get_template L name kw) =
     (if keyword_clash [''url''] kw then []
      else fst (p_get L (url_format (''template/'' @ name)) kw))"
  by (auto simp: get_template_def split: prod.splits sum.splits)

lemma invoke_sent_decoders:
  "fst (invoke (L\<lparr>bytes_decode := bd, json_decode := jd\<rparr>) c) = fst (invoke L c)"
  by (cases c)
    (simp_all add: compilers_def get_permlink_def get_template_fst get_user_def compile_def
      compile_nd_def post_permlink_def p_get_fst p_post_fst Let_def)

text \<open>
  C2: whichever endpoint method is called, if the request it sent is answered with a
  status outside 200 to 299, the method raises \<open>HTTPStatusError\<close> with that status and
  the URL of the request, and returns no value. It sent that one request and no other
  (nothing is retried), the error is the method's own outcome (nothing catches it), and
  the outcome is the same whatever the byte decoder and the JSON decoder are: the
  body is not decoded.
\<close>

theorem non_2xx_raises:
  assumes "fst (invoke L c) = [req]" and "send L req = Inr rep"
    and "\<not> (200 \<le> status rep \<and> status rep < 300)"
  shows "invoke L c = ([req], Inl (HTTPStatusError (status rep) (url req)))
         \<and> invoke (L\<lparr>bytes_decode := bd, json_decode := jd\<rparr>) c = invoke L c"
proof -
  let ?L' = "L\<lparr>bytes_decode := bd, json_decode := jd\<rparr>"
  have here: "invoke L c = ([req], Inl (HTTPStatusError (status rep) (url req)))"
    using assms by (rule invoke_non_2xx)
  have "fst (invoke ?L' c) = [req]"
    using assms(1) by (simp add: invoke_sent_decoders)
  moreover have "send ?L' req = Inr rep"
    using assms(2) by simp
  ultimately have "invoke ?L' c = ([req], Inl (HTTPStatusError (status rep) (url req)))"
    using assms(3) by (rule invoke_non_2xx)
  with here show ?thesis by simp
qed


theorem non_2xx_raises_witness:
  "invoke (stub_lib 404 ''application/json'' ''true'') (GetTemplate ''gcc'' [])
     = ([\<lparr>verb = GET, url = ''https://wandbox.org/api/template/gcc'', ssl = False, kwargs = []\<rparr>],
        Inl (HTTPStatusError 404 ''https://wandbox.org/api/template/gcc''))
   \<and> invoke (stub_lib 500 ''application/json'' ''true'')
        (PostPermlink PNone PNone PNone PNone PNone PNone PNone PNone [])
     = ([\<lparr>verb = POST, url = ''https://wandbox.org/api/permlink'', ssl = False,
          kwargs = [(''params'', PStr ''{}'')]\<rparr>],
        Inl (HTTPStatusError 500 ''https://wandbox.org/api/permlink''))"
proof -
  let ?L = "stub_lib 404 ''application/json'' ''true''"
  let ?req = "\<lparr>verb = GET, url = ''https://wandbox.org/api/template/gcc'', ssl = False,
      kwargs = []\<rparr>"
  let ?rep = "\<lparr>status = 404, content_type = ''application/json'', charset = None,
      body = ''true''\<rparr>"
  have sent: "fst (invoke ?L (GetTemplate ''gcc'' [])) = [?req]"
    by (simp add: get_template_fst p_get_fst keyword_clash_def url_format_def)
  have answer: "send ?L ?req = Inr ?rep"
    by (simp add: stub_lib_def)
  have bad: "\<not> (200 \<le> status ?rep \<and> status ?rep < 300)"
    by simp
  let ?M = "stub_lib 500 ''application/json'' ''true''"
  let ?req' = "\<lparr>verb = POST, url = ''https://wandbox.org/api/permlink'', ssl = False,
      kwargs = [(''params'', PStr ''{}'')]\<rparr>"
  let ?rep' = "\<lparr>status = 500, content_type = ''application/json'', charset = None,
      body = ''true''\<rparr>"
  have sent': "fst (invoke ?M (PostPermlink PNone PNone PNone PNone PNone PNone PNone PNone []))
      = [?req']"
    by (simp add: post_permlink_def p_post_fst keyword_clash_def url_format_def Let_def
        stub_lib_def)
  have answer': "send ?M ?req' = Inr ?rep'"
    by (simp add: stub_lib_def)
  have bad': "\<not> (200 \<le> status ?rep' \<and> status ?rep' < 300)"
    by simp
  show ?thesis
    using non_2xx_raises [OF sent answer bad] non_2xx_raises [OF sent' answer' bad']
    by simp
qed

text \<open>
  C5: when the decoded response to the template request is a dict, \<open>get_template\<close>
  returns the value under its key \<open>code\<close>; when it is anything else, \<open>get_template\<close>
  returns the decoded value itself. So both the envelope with \<open>code\<close> set to the
  string \<open>hello\<close> and the bare string \<open>hello\<close> come back as \<open>hello\<close>.
\<close>

theorem get_template_unwraps:
  assumes "\<not> keyword_clash [''url''] kw"
    and "snd (p_get L (url_format (''template/'' @ name)) kw) = Inr code"
  shows "(\<forall>d v. code = PDict d \<and> map_of d ''code'' = Some v
            \<longrightarrow> snd (get_template L name kw) = Inr v)
         \<and> ((\<forall>d. code \<noteq> PDict d) \<longrightarrow> snd (get_template L name kw) = Inr code)"
proof -
  obtain sent where pg: "p_get L (url_format (''template/'' @ name)) kw = (sent, Inr code)"
    using assms(2) by (cases "p_get L (url_format (''template/'' @ name)) kw") simp
  show ?thesis
    using assms(1) pg by (cases code) (simp_all add: get_template_def)
qed

theorem get_template_unwraps_witness:
  \<open>snd (get_template (stub_lib 200 ''application/json'' ''{"code": "hello"}'') ''gcc'' [])
     = Inr (PStr ''hello'')
   \<and> snd (get_template (stub_lib 200 ''application/json'' ''"hello"'') ''gcc'' [])
     = Inr (PStr ''hello'')\<close>
proof -
  let ?L = \<open>stub_lib 200 ''application/json'' ''{"code": "hello"}''\<close>
  let ?M = \<open>stub_lib 200 ''application/json'' ''"hello"''\<close>
  have nc: "\<not> keyword_clash [''url''] []"
    by (simp add: keyword_clash_def)
  have wrapped: "snd (p_get ?L (url_format (''template/'' @ ''gcc'')) [])
      = Inr (PDict [(''code'', PStr ''hello'')])"
    by (simp add: p_get_def keyword_clash_def Let_def session_request_def raise_for_status_def
        p_parse_response_def response_json_def stub_lib_def stub_json_decode_def
        reply.defs response.defs)
  have bare: "snd (p_get ?M (url_format (''template/'' @ ''gcc'')) []) = Inr (PStr ''hello'')"
    by (simp add: p_get_def keyword_clash_def Let_def session_request_def raise_for_status_def
        p_parse_response_def response_json_def stub_lib_def stub_json_decode_def
        reply.defs response.defs)
  show ?thesis
    using get_template_unwraps [OF nc wrapped] get_template_unwraps [OF nc bare]
    by simp
qed

lemma keyword_clash_iff:
  "keyword_clash names kw \<longleftrightarrow> (\<exists>k \<in> set names. k \<in> fst ` set kw)"
  by (auto simp: keyword_clash_def filter_empty_conv)

lemma keyword_clash_update:
  "keyword_clash names (AList.update k v kw) \<longleftrightarrow> keyword_clash names kw \<or> k \<in> set names"
  by (auto simp: keyword_clash_iff dom_update)

lemma compile_sent:
  assumes "\<not> keyword_clash [''url'', ''ssl''] kw"
  shows "fst (compile L code compiler codes cor options ror save stdin kw) =
     [\<lparr>verb = POST, url = url_format ''compile.json'', ssl = False,
       kwargs = AList.update ''headers''
           (PDict [(''Content-type'', PStr ''application/json''), (''Accept'', PStr ''text/plain'')])
           (AList.update ''data''
              (PStr (json_dumps L (PDict [(''code'', code), (''codes'', codes),
                 (''compiler'', compiler), (''compiler-option-raw'', cor), (''options'', options),
                 (''runtime-option-raw'', ror), (''save'', save), (''stdin'', stdin)])))
              kw)\<rparr>]"
proof -
  have "\<not> keyword_clash [''url''] kw"
    using assms by (auto simp: keyword_clash_iff)
  with assms show ?thesis
    by (simp add: compile_def Let_def p_post_fst keyword_clash_update)
qed

lemma compile_nd_sent:
  assumes "\<not> keyword_clash [''url'', ''ssl''] kw"
  shows "fst (compile_nd L code compiler codes cor options ror stdin kw) =
     [\<lparr>verb = POST, url = url_format ''compile.ndjson'', ssl = False,
       kwargs = AList.update ''headers''
           (PDict [(''Content-type'', PStr ''application/x-ndjson''), (''Accept'', PStr ''text/plain'')])
           (AList.update ''data''
              (PStr (json_dumps L (PDict [(''code'', code), (''codes'', codes),
                 (''compiler'', compiler), (''compiler-option-raw'', cor), (''options'', options),
                 (''runtime-option-raw'', ror), (''stdin'', stdin)])))
              kw)\<rparr>]"
proof -
  have "\<not> keyword_clash [''url''] kw"
    using assms by (auto simp: keyword_clash_iff)
  with assms show ?thesis
    by (simp add: compile_nd_def Let_def p_post_fst keyword_clash_update)
qed

lemma post_permlink_sent:
  assumes "\<not> keyword_clash [''url'', ''ssl''] kw"
  shows "fst (post_permlink L code compiler codes cor options results ror stdin kw) =
     [\<lparr>verb = POST, url = url_format ''permlink'', ssl = False,
       kwargs = AList.update ''params''
              (PStr (json_dumps L (PDict [(''code'', code), (''codes'', codes),
                 (''compiler'', compiler), (''compiler-option-raw'', cor), (''options'', options),
                 (''results'', results), (''runtime-option-raw'', ror), (''stdin'', stdin)])))
              kw\<rparr>]"
proof -
  have "\<not> keyword_clash [''url''] kw"
    using assms by (auto simp: keyword_clash_iff)
  with assms show ?thesis
    by (simp add: post_permlink_def Let_def p_post_fst keyword_clash_update)
qed

text \<open>
  C6: in \<open>compile\<close>, \<open>compile_nd\<close> and \<open>post_permlink\<close> alike, the parameters
  \<open>compiler_option_raw\<close> and \<open>runtime_option_raw\<close> go on the wire under the keys
  \<open>compiler-option-raw\<close> and \<open>runtime-option-raw\<close>, and under no key spelt with
  underscores: the one request each method sends carries the serialisation of a dict
  (the same dict whatever the serialiser) in which the hyphenated keys hold the values
  of the two parameters as they were passed. A value \<open>False\<close> is thus handed to the
  serialiser as the boolean false under the hyphenated key. \<open>compile\<close> and
  \<open>compile_nd\<close> send the text as \<open>data\<close>, \<open>post_permlink\<close> as \<open>params\<close>.
\<close>

theorem option_raw_hyphenated:
  assumes "\<not> keyword_clash [''url'', ''ssl''] kw"
  shows "(\<exists>ps. map_of ps ''compiler-option-raw'' = Some cor
            \<and> map_of ps ''runtime-option-raw'' = Some ror
            \<and> map_of ps ''compiler_option_raw'' = None
            \<and> map_of ps ''runtime_option_raw'' = None
            \<and> (\<forall>L. map (\<lambda>r. map_of (kwargs r) ''data'')
                      (fst (compile L code compiler codes cor options ror save stdin kw))
                    = [Some (PStr (json_dumps L (PDict ps)))]))
       \<and> (\<exists>ps. map_of ps ''compiler-option-raw'' = Some cor
            \<and> map_of ps ''runtime-option-raw'' = Some ror
            \<and> map_of ps ''compiler_option_raw'' = None
            \<and> map_of ps ''runtime_option_raw'' = None
            \<and> (\<forall>L. map (\<lambda>r. map_of (kwargs r) ''data'')
                      (fst (compile_nd L code compiler codes cor options ror stdin kw))
                    = [Some (PStr (json_dumps L (PDict ps)))]))
       \<and> (\<exists>ps. map_of ps ''compiler-option-raw'' = Some cor
            \<and> map_of ps ''runtime-option-raw'' = Some ror
            \<and> map_of ps ''compiler_option_raw'' = None
            \<and> map_of ps ''runtime_option_raw'' = None
            \<and> (\<forall>L. map (\<lambda>r. map_of (kwargs r) ''params'')
                      (fst (post_permlink L code compiler codes cor options results ror stdin kw))
                    = [Some (PStr (json_dumps L (PDict ps)))]))"
proof (intro conjI)
  show "\<exists>ps. map_of ps ''compiler-option-raw'' = Some cor
            \<and> map_of ps ''runtime-option-raw'' = Some ror
            \<and> map_of ps ''compiler_option_raw'' = None
            \<and> map_of ps ''runtime_option_raw'' = None
            \<and> (\<forall>L. map (\<lambda>r. map_of (kwargs r) ''data'')
                      (fst (compile L code compiler codes cor options ror save stdin kw))
                    = [Some (PStr (json_dumps L (PDict ps)))])"
    by (rule exI [of _ "[(''code'', code), (''codes'', codes),
                 (''compiler'', compiler), (''compiler-option-raw'', cor), (''options'', options),
                 (''runtime-option-raw'', ror), (''save'', save), (''stdin'', stdin)]"])
      (simp add: compile_sent [OF assms] update_conv')
next
  show "\<exists>ps. map_of ps ''compiler-option-raw'' = Some cor
            \<and> map_of ps ''runtime-option-raw'' = Some ror
            \<and> map_of ps ''compiler_option_raw'' = None
            \<and> map_of ps ''runtime_option_raw'' = None
            \<and> (\<forall>L. map (\<lambda>r. map_of (kwargs r) ''data'')
                      (fst (compile_nd L code compiler codes cor options ror stdin kw))
                    = [Some (PStr (json_dumps L (PDict ps)))])"
    by (rule exI [of _ "[(''code'', code), (''codes'', codes),
                 (''compiler'', compiler), (''compiler-option-raw'', cor), (''options'', options),
                 (''runtime-option-raw'', ror), (''stdin'', stdin)]"])
      (simp add: compile_nd_sent [OF assms] update_conv')
next
  show "\<exists>ps. map_of ps ''compiler-option-raw'' = Some cor
            \<and> map_of ps ''runtime-option-raw'' = Some ror
            \<and> map_of ps ''compiler_option_raw'' = None
            \<and> map_of ps ''runtime_option_raw'' = None
            \<and> (\<forall>L. map (\<lambda>r. map_of (kwargs r) ''params'')
                      (fst (post_permlink L code compiler codes cor options results ror stdin kw))
                    = [Some (PStr (json_dumps L (PDict ps)))])"
    by (rule exI [of _ "[(''code'', code), (''codes'', codes),
                 (''compiler'', compiler), (''compiler-option-raw'', cor), (''options'', options),
                 (''results'', results), (''runtime-option-raw'', ror), (''stdin'', stdin)]"])
      (simp add: post_permlink_sent [OF assms] update_conv')
qed


theorem option_raw_hyphenated_witness:
  "\<not> keyword_clash [''url'', ''ssl''] []
   \<and> (\<exists>ps. map_of ps ''compiler-option-raw'' = Some (PBool False)
            \<and> map_of ps ''runtime-option-raw'' = Some (PBool True)
            \<and> map_of ps ''compiler_option_raw'' = None
            \<and> map_of ps ''runtime_option_raw'' = None
            \<and> (\<forall>L. map (\<lambda>r. map_of (kwargs r) ''data'')
                      (fst (compile L (PStr ''print(1)'') (PStr ''cpython-3.8.0'') (PList []) (PBool False) (PStr []) (PBool True) (PBool False) (PStr []) []))
                    = [Some (PStr (json_dumps L (PDict ps)))]))
       \<and> (\<exists>ps. map_of ps ''compiler-option-raw'' = Some (PBool False)
            \<and> map_of ps ''runtime-option-raw'' = Some (PBool True)
            \<and> map_of ps ''compiler_option_raw'' = None
            \<and> map_of ps ''runtime_option_raw'' = None
            \<and> (\<forall>L. map (\<lambda>r. map_of (kwargs r) ''data'')
                      (fst (compile_nd L (PStr ''print(1)'') (PStr ''cpython-3.8.0'') (PList []) (PBool False) (PStr []) (PBool True) (PStr []) []))
                    = [Some (PStr (json_dumps L (PDict ps)))]))
       \<and> (\<exists>ps. map_of ps ''compiler-option-raw'' = Some (PBool False)
            \<and> map_of ps ''runtime-option-raw'' = Some (PBool True)
            \<and> map_of ps ''compiler_option_raw'' = None
            \<and> map_of ps ''runtime_option_raw'' = None
            \<and> (\<forall>L. map (\<lambda>r. map_of (kwargs r) ''params'')
                      (fst (post_permlink L (PStr ''print(1)'') (PStr ''cpython-3.8.0'') (PList []) (PBool False) (PStr []) (PList []) (PBool True) (PStr []) []))
                    = [Some (PStr (json_dumps L (PDict ps)))]))"
proof -
  have nc: "\<not> keyword_clash [''url'', ''ssl''] []"
    by (simp add: keyword_clash_def)
  show ?thesis
    using nc
      option_raw_hyphenated [OF nc, where cor = "PBool False" and ror = "PBool True"
        and code = "PStr ''print(1)''" and compiler = "PStr ''cpython-3.8.0''"
        and codes = "PList []" and options = "PStr []" and save = "PBool False"
        and stdin = "PStr []" and results = "PList []"]
    by blast
qed

lemma compilers_sent:
  "fst (compilers L kw) =
     (if keyword_clash [''url'', ''headers'', ''ssl''] kw then []
      else [\<lparr>verb = GET, url = url_format ''list.json'', ssl = False,
              kwargs = (''headers'', PDict [(''Content-type'', PStr ''application/json''),
                                            (''Accept'', PStr ''text/plain'')]) # kw\<rparr>])"
  by (auto simp: compilers_def Let_def p_get_fst keyword_clash_iff)

lemma compile_headers:
  "\<forall>r \<in> set (fst (compile L code compiler codes cor options ror save stdin kw)).
     map_of (kwargs r) ''headers''
       = Some (PDict [(''Content-type'', PStr ''application/json''), (''Accept'', PStr ''text/plain'')])"
  by (auto simp: compile_def Let_def p_post_fst update_conv' split: if_splits)

lemma compile_nd_headers:
  "\<forall>r \<in> set (fst (compile_nd L code compiler codes cor options ror stdin kw)).
     map_of (kwargs r) ''headers''
       = Some (PDict [(''Content-type'', PStr ''application/x-ndjson''),
                      (''Accept'', PStr ''text/plain'')])"
  by (auto simp: compile_nd_def Let_def p_post_fst update_conv' split: if_splits)

text \<open>
  C8, as the claim states it, fails: \<open>get_permlink\<close>, \<open>get_template\<close> and \<open>get_user\<close>
  set no headers. Called with no keyword arguments, each sends one request, and that
  request has no \<open>headers\<close> at all.
\<close>

theorem request_headers_counterexample:
  "map (\<lambda>r. map_of (kwargs r) ''headers'')
       (fst (get_permlink (stub_lib 200 ''application/json'' ''true'') ''abc'' [])) = [None]
   \<and> map (\<lambda>r. map_of (kwargs r) ''headers'')
       (fst (get_template (stub_lib 200 ''application/json'' ''true'') ''gcc'' [])) = [None]
   \<and> map (\<lambda>r. map_of (kwargs r) ''headers'')
       (fst (get_user (stub_lib 200 ''application/json'' ''true'') (PStr ''token'') [])) = [None]"
  by (simp add: get_permlink_def get_template_fst get_user_def p_get_fst keyword_clash_def)


text \<open>
  C8, amended: every request sent by \<open>compilers\<close> and by \<open>compile\<close> carries the
  headers \<open>Content-type: application/json\<close> and \<open>Accept: text/plain\<close>; every request
  sent by \<open>compile_nd\<close> carries \<open>Content-type: application/x-ndjson\<close> and
  \<open>Accept: text/plain\<close>; a request sent by \<open>get_permlink\<close>, \<open>get_template\<close> or
  \<open>get_user\<close> carries the headers its caller passed among the keyword arguments, if
  any, and none of the method's own.
\<close>

theorem request_headers:
  "(\<forall>r \<in> set (fst (compilers L kw)).
      map_of (kwargs r) ''headers''
        = Some (PDict [(''Content-type'', PStr ''application/json''),
                       (''Accept'', PStr ''text/plain'')]))
   \<and> (\<forall>r \<in> set (fst (compile L code compiler codes cor options ror save stdin kw)).
      map_of (kwargs r) ''headers''
        = Some (PDict [(''Content-type'', PStr ''application/json''),
                       (''Accept'', PStr ''text/plain'')]))
   \<and> (\<forall>r \<in> set (fst (compile_nd L code compiler codes cor options ror stdin kw)).
      map_of (kwargs r) ''headers''
        = Some (PDict [(''Content-type'', PStr ''application/x-ndjson''),
                       (''Accept'', PStr ''text/plain'')]))
   \<and> (\<forall>r \<in> set (fst (get_permlink L link kw)). map_of (kwargs r) ''headers'' = map_of kw ''headers'')
   \<and> (\<forall>r \<in> set (fst (get_template L name kw)). map_of (kwargs r) ''headers'' = map_of kw ''headers'')
   \<and> (\<forall>r \<in> set (fst (get_user L s kw)). map_of (kwargs r) ''headers'' = map_of kw ''headers'')"
proof (intro conjI)
  show "\<forall>r \<in> set (fst (compilers L kw)).
      map_of (kwargs r) ''headers''
        = Some (PDict [(''Content-type'', PStr ''application/json''),
                       (''Accept'', PStr ''text/plain'')])"
    by (simp add: compilers_sent)
  show "\<forall>r \<in> set (fst (compile L code compiler codes cor options ror save stdin kw)).
      map_of (kwargs r) ''headers''
        = Some (PDict [(''Content-type'', PStr ''application/json''),
                       (''Accept'', PStr ''text/plain'')])"
    by (rule compile_headers)
  show "\<forall>r \<in> set (fst (compile_nd L code compiler codes cor options ror stdin kw)).
      map_of (kwargs r) ''headers''
        = Some (PDict [(''Content-type'', PStr ''application/x-ndjson''),
                       (''Accept'', PStr ''text/plain'')])"
    by (rule compile_nd_headers)
  show "\<forall>r \<in> set (fst (get_permlink L link kw)). map_of (kwargs r) ''headers'' = map_of kw ''headers''"
    by (simp add: get_permlink_def p_get_fst)
  show "\<forall>r \<in> set (fst (get_template L name kw)). map_of (kwargs r) ''headers'' = map_of kw ''headers''"
    by (simp add: get_template_fst p_get_fst)
  show "\<forall>r \<in> set (fst (get_user L s kw)). map_of (kwargs r) ''headers'' = map_of kw ''headers''"
    by (simp add: get_user_def p_get_fst)
qed

theorem request_headers_witness:
  "hd (fst (compilers (stub_lib 200 ''application/json'' ''true'') [])) \<in> set (fst (compilers (stub_lib 200 ''application/json'' ''true'') []))
   \<and> map_of (kwargs (hd (fst (compilers (stub_lib 200 ''application/json'' ''true'') [])))) ''headers''
       = Some (PDict [(''Content-type'', PStr ''application/json''), (''Accept'', PStr ''text/plain'')])
   \<and> hd (fst (compile (stub_lib 200 ''application/json'' ''true'') (PStr ''print(1)'') (PStr ''cpython-3.8.0'') (PList []) (PBool False) (PStr []) (PBool True) (PBool False) (PStr []) [])) \<in> set (fst (compile (stub_lib 200 ''application/json'' ''true'') (PStr ''print(1)'') (PStr ''cpython-3.8.0'') (PList []) (PBool False) (PStr []) (PBool True) (PBool False) (PStr []) []))
   \<and> map_of (kwargs (hd (fst (compile (stub_lib 200 ''application/json'' ''true'') (PStr ''print(1)'') (PStr ''cpython-3.8.0'') (PList []) (PBool False) (PStr []) (PBool True) (PBool False) (PStr []) [])))) ''headers''
       = Some (PDict [(''Content-type'', PStr ''application/json''), (''Accept'', PStr ''text/plain'')])
   \<and> hd (fst (compile_nd (stub_lib 200 ''application/json'' ''true'') (PStr ''print(1)'') (PStr ''cpython-3.8.0'') (PList []) (PBool False) (PStr []) (PBool True) (PStr []) [])) \<in> set (fst (compile_nd (stub_lib 200 ''application/json'' ''true'') (PStr ''print(1)'') (PStr ''cpython-3.8.0'') (PList []) (PBool False) (PStr []) (PBool True) (PStr []) []))
   \<and> map_of (kwargs (hd (fst (compile_nd (stub_lib 200 ''application/json'' ''true'') (PStr ''print(1)'') (PStr ''cpython-3.8.0'') (PList []) (PBool False) (PStr []) (PBool True) (PStr []) [])))) ''headers''
       = Some (PDict [(''Content-type'', PStr ''application/x-ndjson''), (''Accept'', PStr ''text/plain'')])
   \<and> hd (fst (get_permlink (stub_lib 200 ''application/json'' ''true'') ''abc'' [])) \<in> set (fst (get_permlink (stub_lib 200 ''application/json'' ''true'') ''abc'' []))
   \<and> map_of (kwargs (hd (fst (get_permlink (stub_lib 200 ''application/json'' ''true'') ''abc'' [])))) ''headers''
       = map_of [] ''headers''
   \<and> hd (fst (get_template (stub_lib 200 ''application/json'' ''true'') ''gcc'' [])) \<in> set (fst (get_template (stub_lib 200 ''application/json'' ''true'') ''gcc'' []))
   \<and> map_of (kwargs (hd (fst (get_template (stub_lib 200 ''application/json'' ''true'') ''gcc'' [])))) ''headers''
       = map_of [] ''headers''
   \<and> hd (fst (get_user (stub_lib 200 ''application/json'' ''true'') (PStr ''token'') [])) \<in> set (fst (get_user (stub_lib 200 ''application/json'' ''true'') (PStr ''token'') []))
   \<and> map_of (kwargs (hd (fst (get_user (stub_lib 200 ''application/json'' ''true'') (PStr ''token'') [])))) ''headers''
       = map_of [] ''headers''"
proof -
  have s1: "hd (fst (compilers (stub_lib 200 ''application/json'' ''true'') [])) \<in> set (fst (compilers (stub_lib 200 ''application/json'' ''true'') []))"
    by (simp add: compilers_sent keyword_clash_def)
  have s2: "hd (fst (compile (stub_lib 200 ''application/json'' ''true'') (PStr ''print(1)'') (PStr ''cpython-3.8.0'') (PList []) (PBool False) (PStr []) (PBool True) (PBool False) (PStr []) [])) \<in> set (fst (compile (stub_lib 200 ''application/json'' ''true'') (PStr ''print(1)'') (PStr ''cpython-3.8.0'') (PList []) (PBool False) (PStr []) (PBool True) (PBool False) (PStr []) []))"
    by (simp add: compile_def Let_def p_post_fst keyword_clash_def)
  have s3: "hd (fst (compile_nd (stub_lib 200 ''application/json'' ''true'') (PStr ''print(1)'') (PStr ''cpython-3.8.0'') (PList []) (PBool False) (PStr []) (PBool True) (PStr []) [])) \<in> set (fst (compile_nd (stub_lib 200 ''application/json'' ''true'') (PStr ''print(1)'') (PStr ''cpython-3.8.0'') (PList []) (PBool False) (PStr []) (PBool True) (PStr []) []))"
    by (simp add: compile_nd_def Let_def p_post_fst keyword_clash_def)
  have s4: "hd (fst (get_permlink (stub_lib 200 ''application/json'' ''true'') ''abc'' [])) \<in> set (fst (get_permlink (stub_lib 200 ''application/json'' ''true'') ''abc'' []))"
    by (simp add: get_permlink_def p_get_fst keyword_clash_def)
  have s5: "hd (fst (get_template (stub_lib 200 ''application/json'' ''true'') ''gcc'' [])) \<in> set (fst (get_template (stub_lib 200 ''application/json'' ''true'') ''gcc'' []))"
    by (simp add: get_template_fst p_get_fst keyword_clash_def)
  have s6: "hd (fst (get_user (stub_lib 200 ''application/json'' ''true'') (PStr ''token'') [])) \<in> set (fst (get_user (stub_lib 200 ''application/json'' ''true'') (PStr ''token'') []))"
    by (simp add: get_user_def p_get_fst keyword_clash_def)
  show ?thesis
    using s1 s2 s3 s4 s5 s6
      request_headers [where L = "stub_lib 200 ''application/json'' ''true''" and kw = "[]"
        and code = "PStr ''print(1)''" and compiler = "PStr ''cpython-3.8.0''"
        and codes = "PList []" and cor = "PBool False" and options = "PStr []"
        and ror = "PBool True" and save = "PBool False" and stdin = "PStr []"
        and link = "''abc''" and name = "''gcc''" and s = "PStr ''token''"]
    by blast
qed

end
